theory Spec2Isabelle
  imports Complex_Main "HOL-Library.Sublist"
begin

section \<open>The connection handler of rubipy (\<^verbatim>\<open>rubipy/network/connection.py\<close>)\<close>

text \<open>
  The class \<^verbatim>\<open>Connection\<close> is embedded with explicit state passing. Every method takes
  the object and the trace of the effects performed so far and returns its outcome (a value
  or the exception raised), the object as the method leaves it, and the extended trace.
  The HTTP library, the JSON parser and the event loop are not part of the repository:
  what they answer is given by an environment, a record of functions of the trace so far,
  so that a theorem quantified over the environment holds for everything they can answer.
  Calls of the logger have no effect on the outcome and are left out.
  Numbers that Python holds as \<^verbatim>\<open>float\<close> (the backoff factor, the timeout, the
  delays) are modelled as exact rationals: rounding and overflow of floating-point
  arithmetic are outside the model.
\<close>

subsection \<open>Python values and exceptions\<close>

text \<open>What \<^verbatim>\<open>response.json()\<close> can return: the Python image of a JSON document. An
  object is an association list; \<^verbatim>\<open>dict.get\<close> is \<^const>\<open>map_of\<close> on it.\<close>

datatype json =
    JNull
  | JBool bool
  | JInt int
  | JFloat rat
  | JString string
  | JArray "json list"
  | JObject "(string \<times> json) list"

text \<open>The exceptions that can travel through the methods. \<^verbatim>\<open>HTTPStatusError\<close> is a
  subclass of \<^verbatim>\<open>HTTPError\<close>; the constructor \<open>HTTPError\<close> stands for every other
  subclass (the transport errors). \<^verbatim>\<open>JSONDecodeError\<close> and \<^verbatim>\<open>UnicodeDecodeError\<close>
  are two unrelated subclasses of \<^verbatim>\<open>ValueError\<close>: a handler for the first does not catch
  the second. \<open>OtherException\<close> is any exception outside these classes.\<close>

datatype exn =
    RubikaAPIError string
  | RubikaConnectionError string
  | HTTPStatusError nat string
  | HTTPError string
  | JSONDecodeError string
  | UnicodeDecodeError string
  | AttributeError string
  | OtherException string

text \<open>\<^verbatim>\<open>except HTTPStatusError\<close> followed by \<^verbatim>\<open>except HTTPError\<close>: the exceptions
  that one of the two handlers of the retry loop catches.\<close>

fun is_HTTPError :: "exn \<Rightarrow> bool" where
  "is_HTTPError (HTTPStatusError code body) = True"
| "is_HTTPError (HTTPError m) = True"
| "is_HTTPError e = False"

fun type_name :: "json \<Rightarrow> string" where
  "type_name JNull = ''NoneType''"
| "type_name (JBool b) = ''bool''"
| "type_name (JInt i) = ''int''"
| "type_name (JFloat x) = ''float''"
| "type_name (JString s) = ''str''"
| "type_name (JArray xs) = ''list''"
| "type_name (JObject kvs) = ''dict''"

definition quoted :: "string \<Rightarrow> string" where
  "quoted s = [CHR 0x27] @ s @ [CHR 0x27]"

definition no_attribute :: "json \<Rightarrow> string \<Rightarrow> exn" where
  "no_attribute v attr =
     AttributeError (quoted (type_name v) @ '' object has no attribute '' @ quoted attr)"

text \<open>\<^verbatim>\<open>v.get(key, default)\<close>: only a dict has the method.\<close>

fun py_get :: "json \<Rightarrow> string \<Rightarrow> json \<Rightarrow> exn + json" where
  "py_get (JObject kvs) key dflt = Inr (case map_of kvs key of Some v \<Rightarrow> v | None \<Rightarrow> dflt)"
| "py_get v key dflt = Inl (no_attribute v ''get'')"

text \<open>\<^verbatim>\<open>str.upper\<close>. Only the comparison of its result with \<^verbatim>\<open>'OK'\<close> is used by
  the program, and no character outside \<open>a\<close>..\<open>z\<close> is mapped to \<open>O\<close> or \<open>K\<close>
  by Python, so the mapping of the ASCII letters is all that is modelled.\<close>

definition upper_char :: "char \<Rightarrow> char" where
  "upper_char ch =
     (case map_of (zip ''abcdefghijklmnopqrstuvwxyz'' ''ABCDEFGHIJKLMNOPQRSTUVWXYZ'') ch of
        Some u \<Rightarrow> u
      | None \<Rightarrow> ch)"

definition upper :: "string \<Rightarrow> string" where
  "upper s = map upper_char s"

text \<open>\<^verbatim>\<open>v.upper()\<close>: only a str has the method.\<close>

fun py_upper :: "json \<Rightarrow> exn + string" where
  "py_upper (JString s) = Inr (upper s)"
| "py_upper v = Inl (no_attribute v ''upper'')"

text \<open>Decimal rendering of an \<^verbatim>\<open>int\<close> inside an f-string.\<close>

fun str_nat :: "nat \<Rightarrow> string" where
  "str_nat n =
     (if n < 10 then [''0123456789'' ! n]
      else str_nat (n div 10) @ [''0123456789'' ! (n mod 10)])"

declare str_nat.simps [simp del]

definition str_int :: "int \<Rightarrow> string" where
  "str_int i = (if i < 0 then ''-'' @ str_nat (nat (- i)) else str_nat (nat i))"

text \<open>\<^verbatim>\<open>x or default\<close> on an optional number and on an optional string: \<^verbatim>\<open>None\<close>,
  zero and the empty string are falsy.\<close>

definition or_num :: "'a::zero option \<Rightarrow> 'a \<Rightarrow> 'a" where
  "or_num x dflt = (case x of None \<Rightarrow> dflt | Some v \<Rightarrow> if v = 0 then dflt else v)"

definition or_str :: "string option \<Rightarrow> string \<Rightarrow> string" where
  "or_str x dflt = (case x of None \<Rightarrow> dflt | Some v \<Rightarrow> if v = [] then dflt else v)"

subsection \<open>The HTTP library as seen by the class\<close>

text \<open>\<^verbatim>\<open>httpx.Timeout\<close>: four optional durations; \<^verbatim>\<open>Timeout(x)\<close> sets all four.\<close>

datatype timeout = Timeout_fields "rat option" "rat option" "rat option" "rat option"

definition Timeout :: "rat \<Rightarrow> timeout" where
  "Timeout x = Timeout_fields (Some x) (Some x) (Some x) (Some x)"

text \<open>The argument \<^verbatim>\<open>timeout: Optional[Union[float, int, Timeout]]\<close>.\<close>

datatype timeout_arg = Seconds rat | Descriptor timeout

type_synonym proxy_types = string

datatype http_method = GET | POST

text \<open>The transport handle, \<^verbatim>\<open>AsyncClient(timeout=..., proxy=...)\<close>.\<close>

datatype async_client = AsyncClient timeout "proxy_types option"

text \<open>A response, by what its two methods used here do: \<^verbatim>\<open>raise_for_status()\<close> returns
  (\<open>None\<close>) or raises, \<^verbatim>\<open>json()\<close> returns the parsed body or raises.\<close>

record response =
  raise_for_status :: "exn option"
  json :: "exn + json"

text \<open>The observable effects, in the order they happen.\<close>

datatype event =
    HttpRequest async_client http_method string "json option"
  | Sleep rat
  | AClose async_client

text \<open>The environment: what the constructor of \<^verbatim>\<open>AsyncClient\<close>, \<^verbatim>\<open>client.request\<close>
  and \<^verbatim>\<open>client.aclose\<close> answer after a given trace, and Python's \<^verbatim>\<open>str()\<close> of a
  float, a list or a dict (used when such a value is formatted into a message).\<close>

record env =
  client_init :: "event list \<Rightarrow> timeout \<Rightarrow> proxy_types option \<Rightarrow> exn option"
  client_request ::
    "event list \<Rightarrow> async_client \<Rightarrow> http_method \<Rightarrow> string \<Rightarrow> json option \<Rightarrow> exn + response"
  client_aclose :: "event list \<Rightarrow> async_client \<Rightarrow> exn option"
  py_repr :: "json \<Rightarrow> string"

text \<open>\<^verbatim>\<open>{v}\<close> inside an f-string.\<close>

fun py_str :: "env \<Rightarrow> json \<Rightarrow> string" where
  "py_str E (JString s) = s"
| "py_str E JNull = ''None''"
| "py_str E (JBool b) = (if b then ''True'' else ''False'')"
| "py_str E (JInt i) = str_int i"
| "py_str E v = py_repr E v"

subsection \<open>The class \<^verbatim>\<open>Connection\<close>\<close>

record connection =
  token :: string
  base_url :: string
  timeout :: timeout
  max_retry :: int
  backoff_factor :: rat
  proxy :: "proxy_types option"
  client :: "async_client option"
  is_connected :: bool

definition TIMEOUT :: rat where "TIMEOUT = 10"
definition BASE_URL :: string where "BASE_URL = ''https://botapi.rubika.ir/v3''"
definition MAX_RETRY :: int where "MAX_RETRY = 3"
definition BACKOFF_FACTOR :: rat where "BACKOFF_FACTOR = 1 / 2"

text \<open>\<^verbatim>\<open>Connection.__init__\<close>\<close>

definition init ::
  "string \<Rightarrow> string option \<Rightarrow> timeout_arg option \<Rightarrow> int option \<Rightarrow> rat option \<Rightarrow>
   proxy_types option \<Rightarrow> connection" where
  "init tok burl tmo max_try backoff prx =
     \<lparr> token = tok,
       base_url = or_str burl BASE_URL,
       timeout = (case tmo of
                    Some (Descriptor t) \<Rightarrow> t
                  | Some (Seconds x) \<Rightarrow> Timeout (or_num (Some x) TIMEOUT)
                  | None \<Rightarrow> Timeout (or_num None TIMEOUT)),
       max_retry = max 1 (or_num max_try MAX_RETRY),
       backoff_factor = max 0 (or_num backoff BACKOFF_FACTOR),
       proxy = prx,
       client = None,
       is_connected = False \<rparr>"

text \<open>\<^verbatim>\<open>Connection.connect\<close>\<close>

definition connect :: "env \<Rightarrow> connection \<Rightarrow> event list \<Rightarrow> (exn + unit) \<times> connection \<times> event list" where
  "connect E c w =
     (if is_connected c
      then (Inl (RubikaConnectionError ''Connection is Already connected''), c, w)
      else case client_init E w (timeout c) (proxy c) of
             Some e \<Rightarrow> (Inl e, c, w)
           | None \<Rightarrow>
               (Inr (),
                c\<lparr>client := Some (AsyncClient (timeout c) (proxy c)), is_connected := True\<rparr>,
                w))"

text \<open>\<^verbatim>\<open>Connection._request_url\<close>\<close>

definition request_url :: "connection \<Rightarrow> string \<Rightarrow> string" where
  "request_url c endpoint = base_url c @ ''/'' @ token c @ ''/'' @ endpoint"

text \<open>The inner \<^verbatim>\<open>try\<close> of \<^verbatim>\<open>request\<close> with its handler
  \<^verbatim>\<open>except JSONDecodeError\<close>: the value returned, or the exception that leaves it.\<close>

definition envelope_body :: "env \<Rightarrow> string \<Rightarrow> response \<Rightarrow> exn + json" where
  "envelope_body E endpoint resp =
     (case json resp of
        Inl e \<Rightarrow> Inl e
      | Inr data \<Rightarrow>
          (case py_get data ''status'' JNull of
             Inl e \<Rightarrow> Inl e
           | Inr status \<Rightarrow>
               (case py_upper status of
                  Inl e \<Rightarrow> Inl e
                | Inr u \<Rightarrow>
                    if u \<noteq> ''OK''
                    then (case py_get data ''dev_message'' (JString ''Unknown error'') of
                            Inl e \<Rightarrow> Inl e
                          | Inr message \<Rightarrow>
                              Inl (RubikaAPIError
                                    (''['' @ endpoint @ ''] API returned error status: ''
                                     @ py_str E status @ '' - '' @ py_str E message)))
                    else py_get data ''data'' (JObject []))))"

definition parse_envelope :: "env \<Rightarrow> string \<Rightarrow> response \<Rightarrow> exn + json" where
  "parse_envelope E endpoint resp =
     (case envelope_body E endpoint resp of
        Inl (JSONDecodeError m) \<Rightarrow>
          Inl (RubikaAPIError (''['' @ endpoint @ ''] Could not parse JSON from response''))
      | r \<Rightarrow> r)"

text \<open>The outer \<^verbatim>\<open>try\<close> of one attempt, without its handlers: the call, the status
  check and the inner \<^verbatim>\<open>try\<close>.\<close>

definition attempt_try ::
  "env \<Rightarrow> async_client \<Rightarrow> string \<Rightarrow> http_method \<Rightarrow> string \<Rightarrow> json option \<Rightarrow> event list \<Rightarrow> exn + json" where
  "attempt_try E cl endpoint method url payload w =
     (case client_request E w cl method url payload of
        Inl e \<Rightarrow> Inl e
      | Inr resp \<Rightarrow>
          (case raise_for_status resp of
             Some e \<Rightarrow> Inl e
           | None \<Rightarrow> parse_envelope E endpoint resp))"

text \<open>The retry loop of \<^verbatim>\<open>request\<close> over the attempt numbers still to run. An attempt
  ends the call (a value returned or an exception not caught by the two handlers), or is
  caught by a handler and falls through to the sleep; after the last number the statement
  behind the loop raises.\<close>

fun request_loop ::
  "env \<Rightarrow> connection \<Rightarrow> async_client \<Rightarrow> string \<Rightarrow> http_method \<Rightarrow> string \<Rightarrow> json option \<Rightarrow>
   int list \<Rightarrow> event list \<Rightarrow> (exn + json) \<times> event list" where
  "request_loop E c cl endpoint method url payload [] w =
     (Inl (RubikaAPIError
            (''['' @ endpoint @ ''] Request failed after '' @ str_int (max_retry c)
             @ '' attempts.'')), w)"
| "request_loop E c cl endpoint method url payload (attempt # rest) w =
     (let w1 = w @ [HttpRequest cl method url payload] in
      case attempt_try E cl endpoint method url payload w of
        Inr v \<Rightarrow> (Inr v, w1)
      | Inl e \<Rightarrow>
          if is_HTTPError e
          then let wait_for = backoff_factor c * 2 ^ nat (attempt - 1)
               in request_loop E c cl endpoint method url payload rest (w1 @ [Sleep wait_for])
          else (Inl e, w1))"

text \<open>\<^verbatim>\<open>range(a, b)\<close>\<close>

definition range_py :: "int \<Rightarrow> int \<Rightarrow> int list" where
  "range_py a b = [a..b - 1]"

text \<open>\<^verbatim>\<open>Connection.request\<close>\<close>

definition request ::
  "env \<Rightarrow> connection \<Rightarrow> string \<Rightarrow> http_method \<Rightarrow> json option \<Rightarrow> event list \<Rightarrow>
   (exn + json) \<times> connection \<times> event list" where
  "request E c endpoint method payload w =
     (case client c of
        None \<Rightarrow>
          (Inl (RubikaConnectionError
                 ''Connection is not connected, call 'connect()' first.''), c, w)
      | Some cl \<Rightarrow>
          (let url = request_url c endpoint;
               (r, w') = request_loop E c cl endpoint method url payload
                           (range_py 1 (max_retry c + 1)) w
           in (r, c, w')))"

text \<open>\<^verbatim>\<open>Connection.disconnect\<close>. The flag is cleared first, then the handle is awaited
  closed, then the reference is cleared: an exception of \<^verbatim>\<open>aclose\<close> leaves between the
  two assignments.\<close>

definition disconnect :: "env \<Rightarrow> connection \<Rightarrow> event list \<Rightarrow> (exn + unit) \<times> connection \<times> event list" where
  "disconnect E c w =
     (if \<not> is_connected c
      then (Inl (RubikaConnectionError ''Connection is already disconnected''), c, w)
      else let c1 = c\<lparr>is_connected := False\<rparr> in
           case client c1 of
             None \<Rightarrow> (Inl (no_attribute JNull ''aclose''), c1, w)
           | Some cl \<Rightarrow>
               (case client_aclose E w cl of
                  Some e \<Rightarrow> (Inl e, c1, w @ [AClose cl])
                | None \<Rightarrow> (Inr (), c1\<lparr>client := None\<rparr>, w @ [AClose cl])))"

subsection \<open>Vocabulary of the properties\<close>

text \<open>The data-model invariant: the flag is set exactly when the handle is present.\<close>

definition handle_invariant :: "connection \<Rightarrow> bool" where
  "handle_invariant c = (is_connected c = (client c \<noteq> None))"

text \<open>An attempt fails with a transport-level error when \<^verbatim>\<open>client.request\<close> raises an
  \<^verbatim>\<open>HTTPError\<close>, and with an HTTP-status error when \<^verbatim>\<open>raise_for_status\<close> does.\<close>

definition retryable_failure :: "exn + response \<Rightarrow> bool" where
  "retryable_failure r =
     (case r of
        Inl e \<Rightarrow> is_HTTPError e
      | Inr resp \<Rightarrow> (case raise_for_status resp of Some e \<Rightarrow> is_HTTPError e | None \<Rightarrow> False))"

text \<open>The trace that \<open>k\<close> failed attempts leave when each is followed by its backoff
  sleep: the \<open>i\<close>-th of them (counted from 0) sleeps \<open>backoff_factor * 2 ^ i\<close>.\<close>

definition failed_attempts ::
  "connection \<Rightarrow> async_client \<Rightarrow> http_method \<Rightarrow> string \<Rightarrow> json option \<Rightarrow> nat \<Rightarrow> event list" where
  "failed_attempts c cl method url payload k =
     concat (map (\<lambda>i. [HttpRequest cl method url payload, Sleep (backoff_factor c * 2 ^ i)])
               [0..<k])"

text \<open>The first \<open>k\<close> attempts of a call that starts after the trace \<open>w\<close> all fail
  retryably: each is asked of the environment after the trace its predecessors left.\<close>

definition attempts_fail ::
  "env \<Rightarrow> connection \<Rightarrow> async_client \<Rightarrow> http_method \<Rightarrow> string \<Rightarrow> json option \<Rightarrow>
   event list \<Rightarrow> nat \<Rightarrow> bool" where
  "attempts_fail E c cl method url payload w k =
     list_all
       (\<lambda>j. retryable_failure
              (client_request E (w @ failed_attempts c cl method url payload j)
                 cl method url payload))
       [0..<k]"

text \<open>The states an object can be in: as constructed, and after any method call, whether
  it returned or raised, in any environment.\<close>

inductive reachable :: "connection \<Rightarrow> bool" where
  reachable_init: "reachable (init tok burl tmo max_try backoff prx)"
| reachable_connect: "reachable c \<Longrightarrow> reachable (fst (snd (connect E c w)))"
| reachable_request:
    "reachable c \<Longrightarrow> reachable (fst (snd (request E c endpoint method payload w)))"
| reachable_disconnect: "reachable c \<Longrightarrow> reachable (fst (snd (disconnect E c w)))"

text \<open>A mocked transport for concrete runs: the \<open>n\<close>-th HTTP call of the trace is
  answered by the \<open>n\<close>-th entry of a script (a connect error once the script is used
  up), the client is always created, and \<^verbatim>\<open>aclose\<close> answers as given.\<close>

fun is_request :: "event \<Rightarrow> bool" where
  "is_request (HttpRequest cl method url payload) = True"
| "is_request ev = False"

fun is_sleep :: "event \<Rightarrow> bool" where
  "is_sleep (Sleep d) = True"
| "is_sleep ev = False"

definition mock_transport :: "(exn + response) list \<Rightarrow> exn option \<Rightarrow> env" where
  "mock_transport script closing =
     \<lparr> client_init = (\<lambda>w t p. None),
       client_request =
         (\<lambda>w cl method url payload.
            let n = length (filter is_request w)
            in if n < length script then script ! n else Inl (HTTPError ''ConnectError'')),
       client_aclose = (\<lambda>w cl. closing),
       py_repr = (\<lambda>v. ''<repr>'') \<rparr>"

definition json_response :: "json \<Rightarrow> exn + response" where
  "json_response v = Inr \<lparr> raise_for_status = None, json = Inr v \<rparr>"

text \<open>A connected object for concrete runs: constructed with base URL
  \<open>https://x/v3\<close>, token \<open>T\<close>, three attempts and backoff factor one half, then
  connected.\<close>

definition example_connection :: connection where
  "example_connection =
     fst (snd (connect (mock_transport [] None)
                 (init ''T'' (Some ''https://x/v3'') None (Some 3) (Some (1 / 2)) None) []))"

definition example_client :: async_client where
  "example_client = AsyncClient (Timeout 10) None"

definition example_call :: "string \<Rightarrow> event" where
  "example_call endpoint = HttpRequest example_client POST (''https://x/v3/T/'' @ endpoint) None"

text \<open>The example connection after a \<open>disconnect\<close> whose \<^verbatim>\<open>aclose()\<close> raised.\<close>

definition half_closed_connection :: connection where
  "half_closed_connection =
     fst (snd (disconnect (mock_transport [] (Some (HTTPError ''CloseError'')))
                 example_connection []))"

section \<open>Properties\<close>

subsection \<open>Auxiliary facts\<close>

lemma upper_char_O: "upper_char ch = CHR ''O'' \<longleftrightarrow> ch = CHR ''O'' \<or> ch = CHR ''o''"
  by (auto simp: upper_char_def split: if_splits)

lemma upper_char_K: "upper_char ch = CHR ''K'' \<longleftrightarrow> ch = CHR ''K'' \<or> ch = CHR ''k''"
  by (auto simp: upper_char_def split: if_splits)

text \<open>The comparison \<^verbatim>\<open>status.upper() != 'OK'\<close> is the case-insensitive comparison
  with \<open>OK\<close>.\<close>

lemma upper_OK_iff: "upper s = ''OK'' \<longleftrightarrow> s \<in> {''OK'', ''Ok'', ''oK'', ''ok''}"
  by (auto simp: upper_def upper_char_O upper_char_K Cons_eq_map_conv)

lemma failed_attempts_0: "failed_attempts c cl method url payload 0 = []"
  by (simp add: failed_attempts_def)

lemma failed_attempts_Suc:
  "failed_attempts c cl method url payload (Suc k) =
     failed_attempts c cl method url payload k
     @ [HttpRequest cl method url payload, Sleep (backoff_factor c * 2 ^ k)]"
  by (simp add: failed_attempts_def)

lemma attempt_try_retryable:
  assumes "retryable_failure (client_request E w cl method url payload)"
  shows "\<exists>e. attempt_try E cl endpoint method url payload w = Inl e \<and> is_HTTPError e"
  using assms
  by (auto simp: retryable_failure_def attempt_try_def split: sum.splits option.splits)

text \<open>One turn of the loop on a retryable failure: the call, then the sleep, then the
  remaining attempt numbers.\<close>

lemma request_loop_retry:
  assumes "retryable_failure (client_request E w cl method url payload)"
  shows "request_loop E c cl endpoint method url payload (a # rest) w =
         request_loop E c cl endpoint method url payload rest
           (w @ [HttpRequest cl method url payload, Sleep (backoff_factor c * 2 ^ nat (a - 1))])"
proof -
  from attempt_try_retryable [OF assms] obtain e
    where "attempt_try E cl endpoint method url payload w = Inl e" and "is_HTTPError e"
    by blast
  then show ?thesis by (simp add: Let_def)
qed

lemma request_loop_failed_prefix:
  assumes "attempts_fail E c cl method url payload w k"
  shows "request_loop E c cl endpoint method url payload ([1..int k] @ rest) w =
         request_loop E c cl endpoint method url payload rest
           (w @ failed_attempts c cl method url payload k)"
  using assms
proof (induction k arbitrary: rest)
  case 0
  then show ?case by (simp add: failed_attempts_0)
next
  case (Suc k)
  have prev: "attempts_fail E c cl method url payload w k"
    and last: "retryable_failure
        (client_request E (w @ failed_attempts c cl method url payload k) cl method url payload)"
    using Suc.prems by (simp_all add: attempts_fail_def)
  have "[1..int (Suc k)] = [1..int k] @ [int k + 1]"
    by (simp add: upto_rec2)
  then have "request_loop E c cl endpoint method url payload ([1..int (Suc k)] @ rest) w =
        request_loop E c cl endpoint method url payload ([1..int k] @ ((int k + 1) # rest)) w"
    by simp
  also have "\<dots> = request_loop E c cl endpoint method url payload ((int k + 1) # rest)
        (w @ failed_attempts c cl method url payload k)"
    by (rule Suc.IH [OF prev])
  also have "\<dots> = request_loop E c cl endpoint method url payload rest
        (w @ failed_attempts c cl method url payload (Suc k))"
    unfolding request_loop_retry [OF last] failed_attempts_Suc by simp
  finally show ?case .
qed

lemma range_py_split:
  assumes "int k < m"
  shows "range_py 1 (m + 1) = [1..int k] @ (int k + 1) # [int k + 2..m]"
proof -
  have "[1..m] = [1..int k] @ [int k + 1..m]"
    using assms by (cases "k = 0") (simp_all add: upto_split2 [of 1 "int k" m])
  moreover have "[int k + 1..m] = (int k + 1) # [int k + 2..m]"
  proof -
    have "int k + 1 \<le> m" using assms by simp
    then have "[int k + 1..m] = (int k + 1) # [int k + 1 + 1..m]"
      by (rule upto_rec1)
    moreover have "int k + 1 + 1 = int k + 2" by simp
    ultimately show ?thesis by (simp only:)
  qed
  ultimately show ?thesis by (simp add: range_py_def)
qed

lemma range_py_all: "range_py 1 (m + 1) = [1..int (nat m)]"
  by (cases "1 \<le> m") (simp_all add: range_py_def)

text \<open>A call whose first \<open>k\<close> attempts fail retryably and whose next attempt, still
  within the budget, ends the call (a value, or an exception that no handler of the loop
  catches): the outcome is that of this attempt, and the trace ends with its HTTP call.\<close>

lemma request_terminal:
  assumes cl: "client c = Some cl"
    and k: "int k < max_retry c"
    and fails: "attempts_fail E c cl method (request_url c endpoint) payload w k"
    and final: "attempt_try E cl endpoint method (request_url c endpoint) payload
                  (w @ failed_attempts c cl method (request_url c endpoint) payload k) = r"
    and stop: "case r of Inl e \<Rightarrow> \<not> is_HTTPError e | Inr v \<Rightarrow> True"
  shows "request E c endpoint method payload w =
           (r, c, w @ failed_attempts c cl method (request_url c endpoint) payload k
                    @ [HttpRequest cl method (request_url c endpoint) payload])"
proof -
  let ?url = "request_url c endpoint"
  let ?w = "w @ failed_attempts c cl method ?url payload k"
  have "request_loop E c cl endpoint method ?url payload (range_py 1 (max_retry c + 1)) w =
        request_loop E c cl endpoint method ?url payload
          ((int k + 1) # [int k + 2..max_retry c]) ?w"
    by (simp only: range_py_split [OF k] request_loop_failed_prefix [OF fails])
  also have "\<dots> = (r, ?w @ [HttpRequest cl method ?url payload])"
    using final stop by (cases r) (simp_all add: Let_def)
  finally show ?thesis
    using cl by (simp add: request_def Let_def)
qed

text \<open>What the loop does when every attempt of the budget fails retryably: every attempt,
  the last one included, is followed by its sleep, and then the call raises.\<close>

lemma request_all_fail:
  assumes cl: "client c = Some cl"
    and fails: "attempts_fail E c cl method (request_url c endpoint) payload w
                  (nat (max_retry c))"
  shows "request E c endpoint method payload w =
           (Inl (RubikaAPIError (''['' @ endpoint @ ''] Request failed after ''
                                 @ str_int (max_retry c) @ '' attempts.'')),
            c, w @ failed_attempts c cl method (request_url c endpoint) payload
                     (nat (max_retry c)))"
proof -
  have "request_loop E c cl endpoint method (request_url c endpoint) payload
          (range_py 1 (max_retry c + 1)) w =
        request_loop E c cl endpoint method (request_url c endpoint) payload
          ([1..int (nat (max_retry c))] @ []) w"
    by (simp only: range_py_all append_Nil2)
  also have "\<dots> = request_loop E c cl endpoint method (request_url c endpoint) payload []
          (w @ failed_attempts c cl method (request_url c endpoint) payload (nat (max_retry c)))"
    by (rule request_loop_failed_prefix [OF fails])
  finally show ?thesis
    using cl by (simp add: request_def)
qed

lemma attempts_fail_0: "attempts_fail E c cl method url payload w 0"
  by (simp add: attempts_fail_def)

lemma attempts_fail_Suc:
  "attempts_fail E c cl method url payload w (Suc k) \<longleftrightarrow>
     attempts_fail E c cl method url payload w k \<and>
     retryable_failure
       (client_request E (w @ failed_attempts c cl method url payload k) cl method url payload)"
  by (simp add: attempts_fail_def)

lemma requests_of_failed_attempts:
  "length (filter is_request (failed_attempts c cl method url payload k)) = k"
  by (induction k) (simp_all add: failed_attempts_0 failed_attempts_Suc)

lemma sleeps_of_failed_attempts:
  "length (filter is_sleep (failed_attempts c cl method url payload k)) = k"
  by (induction k) (simp_all add: failed_attempts_0 failed_attempts_Suc)

subsection \<open>The example connection and the mocked transport\<close>

lemma example_connection_eq:
  "example_connection =
     \<lparr> token = ''T'', base_url = ''https://x/v3'', timeout = Timeout 10, max_retry = 3,
       backoff_factor = 1 / 2, proxy = None, client = Some example_client,
       is_connected = True \<rparr>"
  by (simp add: example_connection_def example_client_def connect_def init_def
      mock_transport_def or_num_def or_str_def TIMEOUT_def max_def)

lemma example_url: "request_url example_connection endpoint = ''https://x/v3/T/'' @ endpoint"
  by (simp add: example_connection_eq request_url_def)

lemma example_failed_attempts:
  "failed_attempts example_connection cl method url payload 0 = []"
  "failed_attempts example_connection cl method url payload (Suc 0) =
     [HttpRequest cl method url payload, Sleep (1 / 2)]"
  "failed_attempts example_connection cl method url payload 2 =
     [HttpRequest cl method url payload, Sleep (1 / 2),
      HttpRequest cl method url payload, Sleep 1]"
  "failed_attempts example_connection cl method url payload 3 =
     [HttpRequest cl method url payload, Sleep (1 / 2),
      HttpRequest cl method url payload, Sleep 1,
      HttpRequest cl method url payload, Sleep 2]"
  by (simp_all add: eval_nat_numeral failed_attempts_Suc failed_attempts_0
      example_connection_eq)

lemma mock_request_nth:
  "client_request (mock_transport script closing) w cl method url payload =
     (if length (filter is_request w) < length script
      then script ! length (filter is_request w) else Inl (HTTPError ''ConnectError''))"
  by (simp add: mock_transport_def)

subsection \<open>Retries exhausted\<close>

text \<open>
  C1. The claim: when each of the \<open>max_retry\<close> attempts fails with a transport-level or
  HTTP-status error, \<open>request\<close> makes exactly \<open>max_retry\<close> attempts, sleeps only between
  consecutive failed attempts (\<open>max_retry - 1\<close> sleeps, none after the last permitted
  attempt), the \<open>k\<close>-th sleep lasting \<open>backoff_factor * 2 ^ (k - 1)\<close>, and then fails
  with the retries-exhausted \<open>RubikaAPIError\<close> naming the endpoint and the attempt count.

  The code does all of this except that the sleep stands unconditionally at the end of the
  loop body, so the last permitted attempt is followed by a sleep as well
  (\<open>request_all_fail\<close> gives the general shape). On the connection with three attempts and
  backoff factor one half, against a transport that raises a transport error on each of
  the three attempts, the run is: call, sleep 1/2, call, sleep 1, call, sleep 2, and only
  then the error. The claim has two sleeps, 1/2 and 1, and none after the third attempt.
\<close>

theorem request_sleeps_after_last_attempt:
  "request
     (mock_transport
        [Inl (HTTPError ''ConnectTimeout''), Inl (HTTPError ''ConnectTimeout''),
         Inl (HTTPError ''ConnectTimeout'')] None)
     example_connection ''e'' POST None [] =
   (Inl (RubikaAPIError ''[e] Request failed after 3 attempts.''),
    example_connection,
    [example_call ''e'', Sleep (1 / 2),
     example_call ''e'', Sleep 1,
     example_call ''e'', Sleep 2])"
  (is "request ?E _ _ _ _ _ = _")
proof -
  have cl: "client example_connection = Some example_client"
    by (simp add: example_connection_eq)
  have m: "max_retry example_connection = 3"
    by (simp add: example_connection_eq)
  have three: "nat (max_retry example_connection) = 3"
    by (simp add: m)
  have fails: "attempts_fail ?E example_connection example_client POST
      (request_url example_connection ''e'') None [] (nat (max_retry example_connection))"
    unfolding three example_url
    by (simp add: eval_nat_numeral attempts_fail_Suc attempts_fail_0 failed_attempts_Suc
        failed_attempts_0 mock_request_nth retryable_failure_def)
  have num: "str_int 3 = ''3''"
    by (simp add: str_int_def str_nat.simps)
  show ?thesis
    using request_all_fail [OF cl fails]
    by (simp add: three m example_url example_failed_attempts num example_call_def)
qed

subsection \<open>Responses that end the call\<close>

text \<open>
  In the statements of this subsection the connection holds a transport handle (the
  guard of \<open>request\<close> tests the handle; under \<open>handle_invariant\<close> that is the connected
  flag), the call starts after an arbitrary trace \<open>w\<close>, its first \<open>k\<close> attempts fail
  retryably (\<open>k = 0\<close> is the first attempt), and attempt \<open>k + 1\<close>, still within the
  budget \<open>max_retry\<close>, receives a response that passes \<^verbatim>\<open>raise_for_status\<close>. The trace
  returned shows what the call did: the \<open>k\<close> failed attempts with their sleeps, then the
  HTTP call of attempt \<open>k + 1\<close>, and nothing after it.
\<close>

text \<open>
  C2. For every connected connection and every HTTP response whose body parses as a JSON
  envelope whose status field does not compare case-insensitively equal to \<open>OK\<close>,
  \<open>request\<close> fails with \<open>RubikaAPIError\<close> on that same attempt: no further attempt and
  no sleep follow, whatever is left of the budget. The message carries the endpoint, the
  reported status and the \<open>dev_message\<close> field of the envelope, or \<open>Unknown error\<close>
  when the field is absent. The status field of an envelope is a string (the envelope
  format of the interface); \<open>upper_OK_iff\<close> says that the test is the case-insensitive
  comparison.
\<close>

theorem request_error_status_not_retried:
  assumes "client c = Some cl"
    and "int k < max_retry c"
    and "attempts_fail E c cl method (request_url c endpoint) payload w k"
    and "client_request E (w @ failed_attempts c cl method (request_url c endpoint) payload k)
           cl method (request_url c endpoint) payload = Inr resp"
    and "raise_for_status resp = None"
    and "json resp = Inr (JObject envelope)"
    and "map_of envelope ''status'' = Some (JString status)"
    and "upper status \<noteq> ''OK''"
  shows "request E c endpoint method payload w =
           (Inl (RubikaAPIError
                  (''['' @ endpoint @ ''] API returned error status: '' @ status @ '' - ''
                   @ py_str E (case map_of envelope ''dev_message'' of
                                 Some message \<Rightarrow> message
                               | None \<Rightarrow> JString ''Unknown error''))),
            c,
            w @ failed_attempts c cl method (request_url c endpoint) payload k
              @ [HttpRequest cl method (request_url c endpoint) payload])"
proof -
  let ?r = "Inl (RubikaAPIError
                  (''['' @ endpoint @ ''] API returned error status: '' @ status @ '' - ''
                   @ py_str E (case map_of envelope ''dev_message'' of
                                 Some message \<Rightarrow> message
                               | None \<Rightarrow> JString ''Unknown error'')))"
  have "attempt_try E cl endpoint method (request_url c endpoint) payload
          (w @ failed_attempts c cl method (request_url c endpoint) payload k) = ?r"
    using assms(4-8) by (simp add: attempt_try_def parse_envelope_def envelope_body_def)
  from request_terminal [OF assms(1-3) this] show ?thesis by simp
qed

theorem request_error_status_not_retried_witness:
  "request
     (mock_transport
        [json_response
           (JObject [(''status'', JString ''ERROR''), (''dev_message'', JString ''bad token'')])]
        None)
     example_connection ''sendText'' POST None [] =
   (Inl (RubikaAPIError ''[sendText] API returned error status: ERROR - bad token''),
    example_connection,
    [example_call ''sendText''])
   \<and>
   request
     (mock_transport [json_response (JObject [(''status'', JString ''ERROR'')])] None)
     example_connection ''sendText'' POST None [] =
   (Inl (RubikaAPIError ''[sendText] API returned error status: ERROR - Unknown error''),
    example_connection,
    [example_call ''sendText''])"
  (is "request ?E1 _ _ _ _ _ = _ \<and> request ?E2 _ _ _ _ _ = _")
proof -
  have connected: "client example_connection = Some example_client"
    by (simp add: example_connection_eq)
  have budget: "int 0 < max_retry example_connection"
    by (simp add: example_connection_eq)
  have not_ok: "upper ''ERROR'' \<noteq> ''OK''"
    by (simp add: upper_def)
  have first1: "client_request ?E1
      ([] @ failed_attempts example_connection example_client POST
              (request_url example_connection ''sendText'') None 0)
      example_client POST (request_url example_connection ''sendText'') None =
      Inr \<lparr> raise_for_status = None,
            json = Inr (JObject [(''status'', JString ''ERROR''),
                                 (''dev_message'', JString ''bad token'')]) \<rparr>"
    by (simp add: failed_attempts_0 mock_request_nth json_response_def)
  have first2: "client_request ?E2
      ([] @ failed_attempts example_connection example_client POST
              (request_url example_connection ''sendText'') None 0)
      example_client POST (request_url example_connection ''sendText'') None =
      Inr \<lparr> raise_for_status = None, json = Inr (JObject [(''status'', JString ''ERROR'')]) \<rparr>"
    by (simp add: failed_attempts_0 mock_request_nth json_response_def)
  show ?thesis
    using request_error_status_not_retried
            [OF connected budget attempts_fail_0 first1 _ _ _ not_ok]
          request_error_status_not_retried
            [OF connected budget attempts_fail_0 first2 _ _ _ not_ok]
    by (simp add: example_url failed_attempts_0 example_call_def)
qed

text \<open>When \<^verbatim>\<open>response.json()\<close> raises \<open>JSONDecodeError\<close>, the handler of the inner
  \<^verbatim>\<open>try\<close> turns it into the \<open>RubikaAPIError\<close> for an unparsable response, which ends
  the call on that attempt.\<close>

lemma request_json_decode_error:
  assumes "client c = Some cl"
    and "int k < max_retry c"
    and "attempts_fail E c cl method (request_url c endpoint) payload w k"
    and "client_request E (w @ failed_attempts c cl method (request_url c endpoint) payload k)
           cl method (request_url c endpoint) payload = Inr resp"
    and "raise_for_status resp = None"
    and "json resp = Inl (JSONDecodeError m)"
  shows "request E c endpoint method payload w =
           (Inl (RubikaAPIError (''['' @ endpoint @ ''] Could not parse JSON from response'')),
            c,
            w @ failed_attempts c cl method (request_url c endpoint) payload k
              @ [HttpRequest cl method (request_url c endpoint) payload])"
proof -
  have "attempt_try E cl endpoint method (request_url c endpoint) payload
          (w @ failed_attempts c cl method (request_url c endpoint) payload k) =
        Inl (RubikaAPIError (''['' @ endpoint @ ''] Could not parse JSON from response''))"
    using assms(4-6) by (simp add: attempt_try_def parse_envelope_def envelope_body_def)
  from request_terminal [OF assms(1-3) this] show ?thesis by simp
qed

text \<open>Any other exception of \<^verbatim>\<open>response.json()\<close> that is not an \<^verbatim>\<open>HTTPError\<close> passes
  the handler of the inner \<^verbatim>\<open>try\<close> and the two handlers of the loop, and leaves
  \<open>request\<close> as it is.\<close>

lemma request_json_other_exception:
  assumes "client c = Some cl"
    and "int k < max_retry c"
    and "attempts_fail E c cl method (request_url c endpoint) payload w k"
    and "client_request E (w @ failed_attempts c cl method (request_url c endpoint) payload k)
           cl method (request_url c endpoint) payload = Inr resp"
    and "raise_for_status resp = None"
    and "json resp = Inl e"
    and "\<And>m. e \<noteq> JSONDecodeError m"
    and "\<not> is_HTTPError e"
  shows "request E c endpoint method payload w =
           (Inl e, c,
            w @ failed_attempts c cl method (request_url c endpoint) payload k
              @ [HttpRequest cl method (request_url c endpoint) payload])"
proof -
  have "parse_envelope E endpoint resp = Inl e"
    using assms(6,7) by (cases e) (auto simp: parse_envelope_def envelope_body_def)
  then have "attempt_try E cl endpoint method (request_url c endpoint) payload
          (w @ failed_attempts c cl method (request_url c endpoint) payload k) = Inl e"
    using assms(4,5) by (simp add: attempt_try_def)
  from request_terminal [OF assms(1-3) this] assms(8) show ?thesis by simp
qed

text \<open>
  C3. The claim: for every connected connection and every structurally successful HTTP
  response whose body is not valid JSON, \<open>request\<close> fails at once with the
  \<open>RubikaAPIError\<close> for a malformed response, with no further attempt and no sleep,
  whatever is left of the budget.

  The code does so when \<^verbatim>\<open>response.json()\<close> raises \<open>JSONDecodeError\<close>
  (\<open>request_json_decode_error\<close>): that is the only exception the inner handler names.
  A body that is not valid JSON because its bytes cannot be decoded makes
  \<^verbatim>\<open>response.json()\<close> raise \<open>UnicodeDecodeError\<close> instead, which no handler catches
  (\<open>request_json_other_exception\<close>). On the example connection, with a successful
  response whose body is the three bytes \<open>ff fe fd\<close>, the call ends on that attempt,
  without a sleep, but with \<open>UnicodeDecodeError\<close> and not with \<open>RubikaAPIError\<close>:
\<close>

theorem request_undecodable_body_not_api_error:
  "request
     (mock_transport
        [Inr \<lparr> raise_for_status = None,
               json = Inl (UnicodeDecodeError ''truncated data'') \<rparr>]
        None)
     example_connection ''getMe'' POST None [] =
   (Inl (UnicodeDecodeError ''truncated data''),
    example_connection,
    [example_call ''getMe''])"
  (is "request ?E _ _ _ _ _ = _")
proof -
  have connected: "client example_connection = Some example_client"
    by (simp add: example_connection_eq)
  have budget: "int 0 < max_retry example_connection"
    by (simp add: example_connection_eq)
  have first: "client_request ?E
      ([] @ failed_attempts example_connection example_client POST
              (request_url example_connection ''getMe'') None 0)
      example_client POST (request_url example_connection ''getMe'') None =
      Inr \<lparr> raise_for_status = None,
            json = Inl (UnicodeDecodeError ''truncated data'') \<rparr>"
    by (simp add: failed_attempts_0 mock_request_nth)
  show ?thesis
    using request_json_other_exception [OF connected budget attempts_fail_0 first]
    by (simp add: example_url failed_attempts_0 example_call_def)
qed

text \<open>
  C4. For every connected connection and every HTTP response whose body parses as a JSON
  envelope whose status field compares case-insensitively equal to \<open>OK\<close>, \<open>request\<close>
  returns on that attempt, with no further attempt and no sleep after it, and the value
  returned is the \<open>data\<close> field of the envelope as it is, or an empty mapping when the
  field is absent.
\<close>

theorem request_ok_returns_data:
  assumes "client c = Some cl"
    and "int k < max_retry c"
    and "attempts_fail E c cl method (request_url c endpoint) payload w k"
    and "client_request E (w @ failed_attempts c cl method (request_url c endpoint) payload k)
           cl method (request_url c endpoint) payload = Inr resp"
    and "raise_for_status resp = None"
    and "json resp = Inr (JObject envelope)"
    and "map_of envelope ''status'' = Some (JString status)"
    and "upper status = ''OK''"
  shows "request E c endpoint method payload w =
           (Inr (case map_of envelope ''data'' of Some d \<Rightarrow> d | None \<Rightarrow> JObject []),
            c,
            w @ failed_attempts c cl method (request_url c endpoint) payload k
              @ [HttpRequest cl method (request_url c endpoint) payload])"
proof -
  have "attempt_try E cl endpoint method (request_url c endpoint) payload
          (w @ failed_attempts c cl method (request_url c endpoint) payload k) =
        Inr (case map_of envelope ''data'' of Some d \<Rightarrow> d | None \<Rightarrow> JObject [])"
    using assms(4-8) by (simp add: attempt_try_def parse_envelope_def envelope_body_def)
  from request_terminal [OF assms(1-3) this] show ?thesis by simp
qed

theorem request_ok_returns_data_witness:
  "request
     (mock_transport
        [Inl (HTTPError ''ReadTimeout''),
         json_response
           (JObject [(''status'', JString ''ok''), (''data'', JObject [(''x'', JInt 1)])])]
        None)
     example_connection ''sendText'' POST None [] =
   (Inr (JObject [(''x'', JInt 1)]),
    example_connection,
    [example_call ''sendText'', Sleep (1 / 2), example_call ''sendText''])"
  (is "request ?E _ _ _ _ _ = _")
proof -
  have connected: "client example_connection = Some example_client"
    by (simp add: example_connection_eq)
  have budget: "int 1 < max_retry example_connection"
    by (simp add: example_connection_eq)
  have first_fails: "attempts_fail ?E example_connection example_client POST
      (request_url example_connection ''sendText'') None [] 1"
    by (simp add: eval_nat_numeral attempts_fail_Suc attempts_fail_0 failed_attempts_0
        mock_request_nth retryable_failure_def)
  have second: "client_request ?E
      ([] @ failed_attempts example_connection example_client POST
              (request_url example_connection ''sendText'') None 1)
      example_client POST (request_url example_connection ''sendText'') None =
      Inr \<lparr> raise_for_status = None,
            json = Inr (JObject [(''status'', JString ''ok''),
                                 (''data'', JObject [(''x'', JInt 1)])]) \<rparr>"
    by (simp add: mock_request_nth requests_of_failed_attempts json_response_def)
  have ok: "upper ''ok'' = ''OK''"
    by (simp add: upper_def upper_char_def)
  show ?thesis
    using request_ok_returns_data [OF connected budget first_fails second _ _ _ ok]
    by (simp add: example_url example_failed_attempts example_call_def)
qed

text \<open>
  C9. There is a connected connection and a response with a valid JSON body whose envelope
  has no string status field (the field is absent or null) for which \<open>request\<close> raises
  an exception that is neither \<open>RubikaAPIError\<close> nor \<open>RubikaConnectionError\<close>: the
  \<open>AttributeError\<close> of calling \<^verbatim>\<open>upper()\<close> on \<^verbatim>\<open>None\<close>. The theorem shows it for
  every such connection and response; its witness is one of them.
\<close>

theorem request_missing_status_attribute_error:
  assumes "client c = Some cl"
    and "int k < max_retry c"
    and "attempts_fail E c cl method (request_url c endpoint) payload w k"
    and "client_request E (w @ failed_attempts c cl method (request_url c endpoint) payload k)
           cl method (request_url c endpoint) payload = Inr resp"
    and "raise_for_status resp = None"
    and "json resp = Inr (JObject envelope)"
    and "map_of envelope ''status'' = None \<or> map_of envelope ''status'' = Some JNull"
  shows "request E c endpoint method payload w =
           (Inl (AttributeError
                  (quoted ''NoneType'' @ '' object has no attribute '' @ quoted ''upper'')),
            c,
            w @ failed_attempts c cl method (request_url c endpoint) payload k
              @ [HttpRequest cl method (request_url c endpoint) payload])"
proof -
  have "attempt_try E cl endpoint method (request_url c endpoint) payload
          (w @ failed_attempts c cl method (request_url c endpoint) payload k) =
        Inl (AttributeError
              (quoted ''NoneType'' @ '' object has no attribute '' @ quoted ''upper''))"
    using assms(4-7)
    by (auto simp: attempt_try_def parse_envelope_def envelope_body_def no_attribute_def)
  from request_terminal [OF assms(1-3) this] show ?thesis by simp
qed

theorem request_missing_status_attribute_error_witness:
  "request
     (mock_transport [json_response (JObject [(''data'', JObject [])])] None)
     example_connection ''getMe'' POST None [] =
   (Inl (AttributeError (quoted ''NoneType'' @ '' object has no attribute '' @ quoted ''upper'')),
    example_connection,
    [example_call ''getMe''])"
  (is "request ?E _ _ _ _ _ = _")
proof -
  have connected: "client example_connection = Some example_client"
    by (simp add: example_connection_eq)
  have budget: "int 0 < max_retry example_connection"
    by (simp add: example_connection_eq)
  have first: "client_request ?E
      ([] @ failed_attempts example_connection example_client POST
              (request_url example_connection ''getMe'') None 0)
      example_client POST (request_url example_connection ''getMe'') None =
      Inr \<lparr> raise_for_status = None, json = Inr (JObject [(''data'', JObject [])]) \<rparr>"
    by (simp add: failed_attempts_0 mock_request_nth json_response_def)
  show ?thesis
    using request_missing_status_attribute_error
            [OF connected budget attempts_fail_0 first]
    by (simp add: example_url failed_attempts_0 example_call_def)
qed

subsection \<open>Lifecycle\<close>

lemma init_bounds:
  "1 \<le> max_retry (init tok burl tmo max_try backoff prx)"
  "0 \<le> backoff_factor (init tok burl tmo max_try backoff prx)"
  by (simp_all add: init_def)

lemma connect_config:
  "max_retry (fst (snd (connect E c w))) = max_retry c"
  "backoff_factor (fst (snd (connect E c w))) = backoff_factor c"
  "token (fst (snd (connect E c w))) = token c"
  "base_url (fst (snd (connect E c w))) = base_url c"
  by (simp_all add: connect_def split: option.splits)

lemma request_state: "fst (snd (request E c endpoint method payload w)) = c"
  by (simp add: request_def Let_def split: option.splits prod.splits)

lemma disconnect_config:
  "max_retry (fst (snd (disconnect E c w))) = max_retry c"
  "backoff_factor (fst (snd (disconnect E c w))) = backoff_factor c"
  "token (fst (snd (disconnect E c w))) = token c"
  "base_url (fst (snd (disconnect E c w))) = base_url c"
  by (simp_all add: disconnect_def Let_def split: option.splits)

lemma connect_invariant:
  "handle_invariant c \<Longrightarrow> handle_invariant (fst (snd (connect E c w)))"
  by (simp add: connect_def handle_invariant_def split: option.splits)

lemma connect_failed_unchanged:
  "fst (connect E c w) = Inl e \<Longrightarrow> snd (connect E c w) = (c, w)"
  by (simp add: connect_def split: if_splits option.splits)

lemma disconnect_guard_unchanged:
  "\<not> is_connected c \<Longrightarrow> snd (disconnect E c w) = (c, w)"
  by (simp add: disconnect_def)

lemma disconnect_closed:
  "is_connected c \<Longrightarrow> client c = Some cl \<Longrightarrow> client_aclose E w cl = None \<Longrightarrow>
   disconnect E c w = (Inr (), c\<lparr>is_connected := False, client := None\<rparr>, w @ [AClose cl])"
  by (simp add: disconnect_def Let_def)

lemma disconnect_invariant:
  assumes "handle_invariant c"
    and "\<And>cl. client c = Some cl \<Longrightarrow> client_aclose E w cl = None"
  shows "handle_invariant (fst (snd (disconnect E c w)))"
  using assms
  by (auto simp: disconnect_def handle_invariant_def Let_def split: option.splits)

lemma disconnect_close_failure:
  "is_connected c \<Longrightarrow> client c = Some cl \<Longrightarrow> client_aclose E w cl = Some e \<Longrightarrow>
   disconnect E c w = (Inl e, c\<lparr>is_connected := False\<rparr>, w @ [AClose cl])"
  by (simp add: disconnect_def Let_def)

text \<open>The three guards: \<open>connect\<close> and \<open>disconnect\<close> test the flag, \<open>request\<close>
  tests the handle. Where a guard is hit the call raises \<open>RubikaConnectionError\<close> at
  once, and the object and the trace are untouched: no HTTP call, no sleep, no close.\<close>

lemma lifecycle_guards:
  "(is_connected c \<longrightarrow>
      connect E c w = (Inl (RubikaConnectionError ''Connection is Already connected''), c, w))
   \<and> (\<not> is_connected c \<longrightarrow>
      disconnect E c w =
        (Inl (RubikaConnectionError ''Connection is already disconnected''), c, w))
   \<and> (client c = None \<longrightarrow>
      request E c endpoint method payload w =
        (Inl (RubikaConnectionError ''Connection is not connected, call 'connect()' first.''),
         c, w))"
  by (simp add: connect_def disconnect_def request_def)

lemma fresh_connection_guards:
  "disconnect E (init tok burl tmo max_try backoff prx) w =
     (Inl (RubikaConnectionError ''Connection is already disconnected''),
      init tok burl tmo max_try backoff prx, w)"
  "request E (init tok burl tmo max_try backoff prx) endpoint method payload w =
     (Inl (RubikaConnectionError ''Connection is not connected, call 'connect()' first.''),
      init tok burl tmo max_try backoff prx, w)"
  by (simp_all add: disconnect_def request_def init_def)

lemma half_closed_connection_eq:
  "half_closed_connection = example_connection\<lparr>is_connected := False\<rparr>"
  by (simp add: half_closed_connection_def example_connection_eq disconnect_def
      mock_transport_def)

text \<open>
  C5. The claim: for every connection, each lifecycle misuse fails at once with
  \<open>RubikaConnectionError\<close> and is never retried: \<open>connect\<close> on a connected object,
  \<open>disconnect\<close> on an object that is not connected, and \<open>request\<close> on an object that
  is not connected, the last without any network I/O.

  The parts on \<open>connect\<close> and \<open>disconnect\<close> hold, and so does the part on
  \<open>request\<close> for an object without a handle, a new object among them
  (\<open>lifecycle_guards\<close>, \<open>fresh_connection_guards\<close>). But \<open>request\<close> tests the handle
  where its siblings test the flag, and the two disagree after a \<open>disconnect\<close> whose
  \<^verbatim>\<open>aclose()\<close> raised. That object is not connected: its flag is cleared and
  \<open>disconnect\<close> refuses it as already disconnected. Yet \<open>request\<close> on it passes the
  guard, issues the HTTP call through the handle whose close failed, and returns the
  data:
\<close>

theorem request_after_failed_close_calls_transport:
  "fst (disconnect (mock_transport [] (Some (HTTPError ''CloseError''))) example_connection [])
     = Inl (HTTPError ''CloseError'')
   \<and> \<not> is_connected half_closed_connection
   \<and> disconnect (mock_transport [] None) half_closed_connection [AClose example_client] =
       (Inl (RubikaConnectionError ''Connection is already disconnected''),
        half_closed_connection, [AClose example_client])
   \<and> request
       (mock_transport
          [json_response
             (JObject [(''status'', JString ''OK''), (''data'', JObject [(''x'', JInt 1)])])]
          None)
       half_closed_connection ''getMe'' POST None [AClose example_client] =
       (Inr (JObject [(''x'', JInt 1)]),
        half_closed_connection,
        [AClose example_client, example_call ''getMe''])"
  (is "?closing \<and> ?flag \<and> ?refused \<and> request ?E _ _ _ _ ?w = _")
proof -
  let ?c = half_closed_connection
  have closing: ?closing
    by (simp add: example_connection_eq disconnect_def mock_transport_def)
  have flag: ?flag
    by (simp add: half_closed_connection_eq example_connection_eq)
  have refused: ?refused
    using flag by (simp add: disconnect_def)
  have handle: "client ?c = Some example_client"
    by (simp add: half_closed_connection_eq example_connection_eq)
  have budget: "int 0 < max_retry ?c"
    by (simp add: half_closed_connection_eq example_connection_eq)
  have url: "request_url ?c ''getMe'' = ''https://x/v3/T/getMe''"
    by (simp add: half_closed_connection_eq example_connection_eq request_url_def)
  have "attempt_try ?E example_client ''getMe'' POST (request_url ?c ''getMe'') None
          (?w @ failed_attempts ?c example_client POST (request_url ?c ''getMe'') None 0) =
        Inr (JObject [(''x'', JInt 1)])"
    by (simp add: failed_attempts_0 mock_request_nth json_response_def attempt_try_def
        parse_envelope_def envelope_body_def upper_def upper_char_def)
  from request_terminal [OF handle budget attempts_fail_0 this]
  have "request ?E ?c ''getMe'' POST None ?w =
        (Inr (JObject [(''x'', JInt 1)]), ?c, ?w @ [example_call ''getMe''])"
    by (simp add: url failed_attempts_0 example_call_def)
  with closing flag refused show ?thesis by simp
qed

text \<open>
  C6. The claim: the invariant that the connected flag is set exactly when the transport
  handle is present is preserved by every operation, failing ones included, and a failed
  \<open>request\<close>, \<open>connect\<close> or \<open>disconnect\<close>, also a \<open>disconnect\<close> whose transport
  close fails, leaves flag and handle exactly as they were.

  This holds for \<open>connect\<close> (\<open>connect_invariant\<close>, \<open>connect_failed_unchanged\<close>), for
  \<open>request\<close> (\<open>request_state\<close>), for the guard of \<open>disconnect\<close>
  (\<open>disconnect_guard_unchanged\<close>) and for a \<open>disconnect\<close> whose close succeeds
  (\<open>disconnect_invariant\<close>). It fails in the one case the claim singles out:
  \<open>disconnect\<close> clears the flag before it awaits \<^verbatim>\<open>aclose()\<close> and clears the handle
  after it, so when \<^verbatim>\<open>aclose()\<close> raises, the flag is cleared and the handle is still
  there (\<open>disconnect_close_failure\<close>). On the example connection:
\<close>

theorem disconnect_close_failure_breaks_invariant:
  "disconnect (mock_transport [] (Some (HTTPError ''CloseError''))) example_connection [] =
     (Inl (HTTPError ''CloseError''),
      example_connection\<lparr>is_connected := False\<rparr>,
      [AClose example_client])
   \<and> handle_invariant example_connection
   \<and> \<not> handle_invariant (example_connection\<lparr>is_connected := False\<rparr>)
   \<and> example_connection\<lparr>is_connected := False\<rparr> \<noteq> example_connection"
  by (simp add: example_connection_eq disconnect_def mock_transport_def handle_invariant_def)

text \<open>
  C7. For every constructor input, zero and negative values for the retry count and the
  backoff factor included, the constructed connection has \<open>1 \<le> max_retry\<close> and
  \<open>0 \<le> backoff_factor\<close>, and the bounds hold in every state the object reaches
  afterwards through its methods.
\<close>

theorem retry_bounds_invariant:
  "1 \<le> max_retry (init tok burl tmo max_try backoff prx)
   \<and> 0 \<le> backoff_factor (init tok burl tmo max_try backoff prx)
   \<and> (reachable c \<longrightarrow> 1 \<le> max_retry c \<and> 0 \<le> backoff_factor c)"
proof -
  have "1 \<le> max_retry c \<and> 0 \<le> backoff_factor c" if "reachable c"
    using that
    by (induction rule: reachable.induct)
       (simp_all add: init_bounds connect_config request_state disconnect_config)
  then show ?thesis by (simp add: init_bounds)
qed

theorem retry_bounds_invariant_witness:
  "reachable
     (fst (snd (disconnect (mock_transport [] None)
        (fst (snd (connect (mock_transport [] None)
           (init ''T'' None None (Some (- 5)) (Some (- 2)) None) []))) [])))
   \<and> max_retry
     (fst (snd (disconnect (mock_transport [] None)
        (fst (snd (connect (mock_transport [] None)
           (init ''T'' None None (Some (- 5)) (Some (- 2)) None) []))) []))) = 1
   \<and> backoff_factor
     (fst (snd (disconnect (mock_transport [] None)
        (fst (snd (connect (mock_transport [] None)
           (init ''T'' None None (Some (- 5)) (Some (- 2)) None) []))) []))) = 0"
  (is "reachable ?c \<and> _")
proof -
  have r: "reachable ?c"
    by (intro reachable_disconnect reachable_connect reachable_init)
  have "max_retry ?c \<le> 1" "backoff_factor ?c \<le> 0"
    by (simp_all add: disconnect_config connect_config init_def or_num_def)
  with r retry_bounds_invariant [of "''T''" None None "Some (- 5)" "Some (- 2)" None ?c]
  show ?thesis by simp
qed

lemma backoff_zero_iff:
  "backoff_factor (init tok burl tmo max_try backoff prx) = 0 \<longleftrightarrow> (\<exists>x<0. backoff = Some x)"
  by (auto simp: init_def or_num_def BACKOFF_FACTOR_def max_def split: option.splits)

text \<open>
  C8. A falsy number supplied for an optional parameter is replaced by the default:
  \<open>max_try = 0\<close> gives \<open>max_retry = 3\<close> (not the floor 1), \<open>backoff_factor = 0\<close>
  gives one half (not 0), and \<open>timeout = 0\<close> gives the default timeout of 10 seconds.
  So supplying the backoff factor 0 never configures the factor 0. (By \<open>backoff_zero_iff\<close>
  the factor 0 arises only from the clamp of a negative argument.)
\<close>

theorem falsy_arguments_take_defaults:
  "max_retry (init tok burl tmo (Some 0) backoff prx) = 3
   \<and> backoff_factor (init tok burl tmo max_try (Some 0) prx) = 1 / 2
   \<and> timeout (init tok burl (Some (Seconds 0)) max_try backoff prx) = Timeout 10
   \<and> backoff_factor (init tok burl tmo max_try (Some 0) prx) \<noteq> 0"
  by (simp add: init_def or_num_def MAX_RETRY_def BACKOFF_FACTOR_def TIMEOUT_def)

subsection \<open>URL construction\<close>

text \<open>
  C10. The request URL is a function of base URL, token and endpoint alone: the three
  parts joined by \<open>/\<close>. The endpoint is appended as it is, no other field of the object
  has any influence, and base URL \<open>https://x/v3\<close>, token \<open>T\<close>, endpoint \<open>e\<close> give
  \<open>https://x/v3/T/e\<close>.
\<close>

theorem request_url_concat:
  "request_url c endpoint = base_url c @ ''/'' @ token c @ ''/'' @ endpoint
   \<and> suffix (''/'' @ endpoint) (request_url c endpoint)
   \<and> request_url
        (c\<lparr>timeout := t, max_retry := m, backoff_factor := b, proxy := p, client := h,
            is_connected := f\<rparr>) endpoint = request_url c endpoint
   \<and> request_url (init ''T'' (Some ''https://x/v3'') tmo max_try backoff prx) ''e'' =
        ''https://x/v3/T/e''"
  by (simp add: request_url_def init_def or_str_def suffix_def)

end
